theory Spec2Isabelle
  imports Complex_Main "HOL-Library.Word"
begin

unbundle bit_operations_syntax

section \<open>Python values shared by both scripts\<close>

text \<open>
  A Python \<open>str\<close> is a sequence of Unicode code points, a \<open>bytes\<close> object a sequence of
  octets. String constants of the scripts are ASCII and are written with \<open>py\<close>.
\<close>

type_synonym pystr = "nat list"
type_synonym bytes = "8 word list"

definition py :: "string \<Rightarrow> pystr" where
  "py s = map of_char s"

text \<open>
  A Python \<open>float\<close>: a finite double is a (dyadic) real number; \<open>json.loads\<close> also accepts
  the tokens \<open>Infinity\<close>, \<open>-Infinity\<close> and \<open>NaN\<close>. No arithmetic is done on floats by either
  script; only their truth value is ever inspected.
\<close>

datatype pyfloat = Finite real | Infinite bool | NaN

text \<open>
  What \<open>json.loads\<close> returns: \<open>None\<close>, \<open>bool\<close>, \<open>int\<close>, \<open>float\<close>, \<open>str\<close>, \<open>list\<close>, \<open>dict\<close>.
  A \<open>dict\<close> is kept as an association list read with \<open>map_of\<close>. \<open>JNull\<close> is Python's
  \<open>None\<close>, so the same type serves for a variable that is \<open>None\<close> or holds a parsed value.
\<close>

datatype json =
    JNull
  | JBool bool
  | JInt int
  | JFloat pyfloat
  | JStr pystr
  | JArr "json list"
  | JObj "(pystr \<times> json) list"

text \<open>
  Exceptions. A \<open>ValueError\<close> raised by the scripts carries its message; the messages of
  exceptions raised by the interpreter and the libraries are not fixed by the scripts and
  are read through a function \<open>str_exc\<close> (Python's \<open>str(e)\<close>) given as a parameter.
\<close>

datatype exn =
    ValueError pystr
  | TypeError
  | IndexError
  | KeyError
  | AttributeError
  | UnicodeDecodeError
  | UnicodeEncodeError
  | JSONDecodeError
  | BinasciiError
  | URLError
  | FileExistsError
  | IsADirectoryError
  | NotADirectoryError
  | OtherException nat

text \<open>Python truth value of a parsed JSON value (\<open>not x\<close> is its negation).\<close>

fun truthy :: "json \<Rightarrow> bool" where
  "truthy JNull = False"
| "truthy (JBool b) = b"
| "truthy (JInt i) = (i \<noteq> 0)"
| "truthy (JFloat (Finite x)) = (x \<noteq> 0)"
| "truthy (JFloat f) = True"
| "truthy (JStr s) = (s \<noteq> [])"
| "truthy (JArr xs) = (xs \<noteq> [])"
| "truthy (JObj d) = (d \<noteq> [])"

section \<open>pixelart.py: the image flow\<close>

subsection \<open>The extractor (lines 45 to 66)\<close>

text \<open>\<open>x[0]\<close> on a parsed JSON value.\<close>

fun getitem0 :: "json \<Rightarrow> exn + json" where
  "getitem0 (JArr []) = Inl IndexError"
| "getitem0 (JArr (x # xs)) = Inr x"
| "getitem0 (JStr []) = Inl IndexError"
| "getitem0 (JStr (c # cs)) = Inr (JStr [c])"
| "getitem0 (JObj d) = Inl KeyError"
| "getitem0 v = Inl TypeError"

definition candidate_keys :: "pystr list" where
  "candidate_keys =
     [py ''image_b64'', py ''image'', py ''base64'', py ''data'', py ''base64_images'']"

text \<open>
  The \<open>for key in [...]\<close> loop with its \<open>break\<close>: the value of the first listed key that the
  dictionary has; \<open>base64_images\<close> stays \<open>None\<close> when it has none of them.
\<close>

fun search_keys :: "pystr list \<Rightarrow> (pystr \<times> json) list \<Rightarrow> json" where
  "search_keys [] img_obj = JNull"
| "search_keys (key # keys) img_obj =
     (case map_of img_obj key of
        Some v \<Rightarrow> v
      | None \<Rightarrow> search_keys keys img_obj)"

text \<open>
  The value of \<open>base64_images\<close> after the \<open>if\<close>/\<open>elif\<close> chain, or the exception that
  \<open>response_data[images][0]\<close> raises.
\<close>

definition extractor :: "json \<Rightarrow> exn + json" where
  "extractor response_data =
     (case response_data of
        JObj d \<Rightarrow>
          (case map_of d (py ''images'') of
             Some images \<Rightarrow>
               (case getitem0 images of
                  Inl e \<Rightarrow> Inl e
                | Inr img_obj \<Rightarrow>
                    (case img_obj of
                       JObj members \<Rightarrow> Inr (search_keys candidate_keys members)
                     | JStr s \<Rightarrow> Inr (JArr [JStr s])
                     | _ \<Rightarrow> Inr JNull))
           | None \<Rightarrow> Inr JNull)
      | JArr xs \<Rightarrow> Inr (if length xs > 0 then JArr xs else JNull)
      | JStr s \<Rightarrow> Inr (JStr s)
      | _ \<Rightarrow> Inr JNull)"

subsection \<open>The file system\<close>

datatype node = Dir | File bytes

type_synonym fs = "pystr \<rightharpoonup> node"

text \<open>\<open>os.makedirs(path, exist_ok=True)\<close> for a path whose parent exists.\<close>

definition makedirs :: "pystr \<Rightarrow> fs \<Rightarrow> exn + fs" where
  "makedirs path fs =
     (case fs path of
        None \<Rightarrow> Inr (fs(path \<mapsto> Dir))
      | Some Dir \<Rightarrow> Inr fs
      | Some (File old) \<Rightarrow> Inl FileExistsError)"

text \<open>\<open>with open(path, wb) as f: f.write(data)\<close> for a file directly under \<open>folder\<close>.\<close>

definition write_file :: "pystr \<Rightarrow> pystr \<Rightarrow> bytes \<Rightarrow> fs \<Rightarrow> exn + fs" where
  "write_file folder path image_data fs =
     (case fs folder of
        Some Dir \<Rightarrow>
          (case fs path of
             Some Dir \<Rightarrow> Inl IsADirectoryError
           | _ \<Rightarrow> Inr (fs(path \<mapsto> File image_data)))
      | _ \<Rightarrow> Inl NotADirectoryError)"

subsection \<open>The body of the \<open>try\<close> block after the response is parsed (lines 45 to 88)\<close>

definition no_image_found :: exn where
  "no_image_found = ValueError (py ''No base64 image found in API response!'')"

definition decode_failed :: "(exn \<Rightarrow> pystr) \<Rightarrow> exn \<Rightarrow> exn" where
  "decode_failed str_exc e = ValueError (py ''Base64 decode failed: '' @ str_exc e)"

definition assets_folder :: pystr where
  "assets_folder = py ''./assets''"

definition output_file :: pystr where
  "output_file = assets_folder @ py ''/'' @ py ''output1.png''"

text \<open>
  \<open>decode\<close> is \<open>base64.b64decode\<close> applied to whatever the extractor produced. The result
  is the exception that reaches the outer \<open>except Exception\<close> (printed after
  \<open>Unexpected error:\<close>) or the path printed after \<open>Image saved to\<close>, with the file system
  the run leaves behind.
\<close>

definition image_flow ::
  "(json \<Rightarrow> exn + bytes) \<Rightarrow> (exn \<Rightarrow> pystr) \<Rightarrow> json \<Rightarrow> fs \<Rightarrow> (exn + pystr) \<times> fs" where
  "image_flow decode str_exc response_data fs =
     (case extractor response_data of
        Inl e \<Rightarrow> (Inl e, fs)
      | Inr base64_images \<Rightarrow>
          if \<not> truthy base64_images then (Inl no_image_found, fs)
          else
            (case decode base64_images of
               Inl e \<Rightarrow> (Inl (decode_failed str_exc e), fs)
             | Inr image_data \<Rightarrow>
                 (case makedirs assets_folder fs of
                    Inl e \<Rightarrow> (Inl e, fs)
                  | Inr fs1 \<Rightarrow>
                      (case write_file assets_folder output_file image_data fs1 of
                         Inl e \<Rightarrow> (Inl e, fs1)
                       | Inr fs2 \<Rightarrow> (Inr output_file, fs2)))))"


subsection \<open>The library's decoder: \<open>base64.b64decode(s)\<close> with \<open>validate=False\<close>\<close>

text \<open>
  \<open>binascii\<close>'s table: the 6-bit value of a character of the standard alphabet, nothing
  for any other character.
\<close>

definition table_a2b_base64 :: "nat \<Rightarrow> 8 word option" where
  "table_a2b_base64 c =
     (if 65 \<le> c \<and> c \<le> 90 then Some (of_nat (c - 65))
      else if 97 \<le> c \<and> c \<le> 122 then Some (of_nat (c - 71))
      else if 48 \<le> c \<and> c \<le> 57 then Some (of_nat (c + 4))
      else if c = 43 then Some 62
      else if c = 47 then Some 63
      else None)"

definition alphabet :: "nat \<Rightarrow> bool" where
  "alphabet c = (table_a2b_base64 c \<noteq> None)"

text \<open>
  The loop of \<open>binascii.a2b_base64\<close> in non-strict mode, with its state \<open>quad_pos\<close>,
  \<open>leftchar\<close>, \<open>pads\<close> and the output written so far. A character outside the
  alphabet is skipped; a pad sequence that completes a quad ends the decoding; input that
  ends inside a quad is an error.
\<close>

fun a2b_base64 :: "nat list \<Rightarrow> nat \<Rightarrow> 8 word \<Rightarrow> nat \<Rightarrow> bytes \<Rightarrow> exn + bytes" where
  "a2b_base64 [] quad_pos leftchar pads bin_data =
     (if quad_pos = 0 then Inr bin_data else Inl BinasciiError)"
| "a2b_base64 (c # rest) quad_pos leftchar pads bin_data =
     (if c = 61 then
        (if 2 \<le> quad_pos then
           (if 4 \<le> quad_pos + (pads + 1) then Inr bin_data
            else a2b_base64 rest quad_pos leftchar (pads + 1) bin_data)
         else a2b_base64 rest quad_pos leftchar pads bin_data)
      else
        (case table_a2b_base64 c of
           None \<Rightarrow> a2b_base64 rest quad_pos leftchar pads bin_data
         | Some this_ch \<Rightarrow>
             (if quad_pos = 0 then a2b_base64 rest 1 this_ch 0 bin_data
              else if quad_pos = 1 then
                a2b_base64 rest 2 (this_ch AND 15) 0
                  (bin_data @ [push_bit 2 leftchar OR drop_bit 4 this_ch])
              else if quad_pos = 2 then
                a2b_base64 rest 3 (this_ch AND 3) 0
                  (bin_data @ [push_bit 4 leftchar OR drop_bit 2 this_ch])
              else
                a2b_base64 rest 0 0 0 (bin_data @ [push_bit 6 leftchar OR this_ch]))))"

text \<open>
  \<open>base64.b64decode\<close>: a \<open>str\<close> must be ASCII (\<open>ValueError\<close> otherwise), and a value that
  is neither \<open>str\<close> nor bytes-like is a \<open>TypeError\<close>; no parsed JSON value is bytes-like.
\<close>

definition b64decode :: "json \<Rightarrow> exn + bytes" where
  "b64decode s =
     (case s of
        JStr cs \<Rightarrow>
          if list_all (\<lambda>c. c < 128) cs then a2b_base64 cs 0 0 0 []
          else Inl (ValueError (py ''string argument should contain only ASCII characters''))
      | _ \<Rightarrow> Inl TypeError)"

text \<open>
  Syntactically valid base64 in the sense of RFC 4648: only alphabet characters, in groups
  of four, the last group possibly ending in one or two pad characters.
\<close>

fun valid_base64 :: "pystr \<Rightarrow> bool" where
  "valid_base64 [] = True"
| "valid_base64 [a, b, c, d] =
     (table_a2b_base64 a \<noteq> None \<and> table_a2b_base64 b \<noteq> None \<and>
      (table_a2b_base64 c \<noteq> None \<and> (table_a2b_base64 d \<noteq> None \<or> d = 61) \<or> c = 61 \<and> d = 61))"
| "valid_base64 (a # b # c # d # rest) =
     (table_a2b_base64 a \<noteq> None \<and> table_a2b_base64 b \<noteq> None \<and>
      table_a2b_base64 c \<noteq> None \<and> table_a2b_base64 d \<noteq> None \<and> valid_base64 rest)"
| "valid_base64 cs = False"

section \<open>gemini\_api\_bridge.py: the text flow\<close>

subsection \<open>Library operations the function uses\<close>

text \<open>\<open>bytes.decode('utf-8')\<close> with the default strict error handling.\<close>

definition continuation :: "nat \<Rightarrow> bool" where
  "continuation b = (128 \<le> b \<and> b < 192)"

fun utf8_decode :: "nat list \<Rightarrow> pystr option" where
  "utf8_decode [] = Some []"
| "utf8_decode (b0 # bs) =
     (if b0 < 128 then map_option ((#) b0) (utf8_decode bs)
      else if 194 \<le> b0 \<and> b0 < 224 then
        (case bs of
           b1 # r \<Rightarrow>
             if continuation b1
             then map_option ((#) ((b0 - 192) * 64 + (b1 - 128))) (utf8_decode r)
             else None
         | _ \<Rightarrow> None)
      else if 224 \<le> b0 \<and> b0 < 240 then
        (case bs of
           b1 # b2 # r \<Rightarrow>
             if continuation b1 \<and> continuation b2 \<and> (224 < b0 \<or> 160 \<le> b1) \<and>
                (b0 < 237 \<or> 237 < b0 \<or> b1 < 160)
             then map_option
                    ((#) ((b0 - 224) * 4096 + (b1 - 128) * 64 + (b2 - 128))) (utf8_decode r)
             else None
         | _ \<Rightarrow> None)
      else if 240 \<le> b0 \<and> b0 < 245 then
        (case bs of
           b1 # b2 # b3 # r \<Rightarrow>
             if continuation b1 \<and> continuation b2 \<and> continuation b3 \<and>
                (240 < b0 \<or> 144 \<le> b1) \<and> (b0 < 244 \<or> b1 < 144)
             then map_option
                    ((#) ((b0 - 240) * 262144 + (b1 - 128) * 4096 + (b2 - 128) * 64 + (b3 - 128)))
                    (utf8_decode r)
             else None
         | _ \<Rightarrow> None)
      else None)"

definition decode :: "bytes \<Rightarrow> exn + pystr" where
  "decode body =
     (case utf8_decode (map unat body) of
        None \<Rightarrow> Inl UnicodeDecodeError
      | Some text \<Rightarrow> Inr text)"

text \<open>An \<open>int\<close> formatted by an f-string: decimal digits, a minus sign when negative.\<close>

function str_nat :: "nat \<Rightarrow> pystr" where
  "str_nat n = (if n < 10 then [48 + n] else str_nat (n div 10) @ [48 + n mod 10])"
  by pat_completeness auto
termination
  by (relation "measure id") auto

declare str_nat.simps [simp del]

definition str_int :: "int \<Rightarrow> pystr" where
  "str_int i = (if i < 0 then 45 # str_nat (nat (- i)) else str_nat (nat i))"

text \<open>\<open>key in x\<close>: a key of a dict, an element of a list, a substring of a string.\<close>

fun substring :: "pystr \<Rightarrow> pystr \<Rightarrow> bool" where
  "substring key [] = (key = [])"
| "substring key (c # cs) = (take (length key) (c # cs) = key \<or> substring key cs)"

fun contains :: "pystr \<Rightarrow> json \<Rightarrow> exn + bool" where
  "contains key (JObj d) = Inr (map_of d key \<noteq> None)"
| "contains key (JArr xs) = Inr (JStr key \<in> set xs)"
| "contains key (JStr s) = Inr (substring key s)"
| "contains key v = Inl TypeError"

text \<open>\<open>x[key]\<close> for a string key.\<close>

fun getitem :: "pystr \<Rightarrow> json \<Rightarrow> exn + json" where
  "getitem key (JObj d) = (case map_of d key of Some v \<Rightarrow> Inr v | None \<Rightarrow> Inl KeyError)"
| "getitem key v = Inl TypeError"

fun len :: "json \<Rightarrow> exn + nat" where
  "len (JArr xs) = Inr (length xs)"
| "len (JStr s) = Inr (length s)"
| "len (JObj d) = Inr (length (remdups (map fst d)))"
| "len v = Inl TypeError"

text \<open>\<open>x.get('text', '')\<close>: only a dict has the method.\<close>

fun get_text :: "json \<Rightarrow> exn + json" where
  "get_text (JObj d) = (case map_of d (py ''text'') of Some v \<Rightarrow> Inr v | None \<Rightarrow> Inr (JStr []))"
| "get_text v = Inl AttributeError"

subsection \<open>The extraction of lines 32 to 36\<close>

text \<open>
  \<open>Inr (Some v)\<close>: the \<open>return\<close> of line 36 is reached with value \<open>v\<close>; \<open>Inr None\<close>: control
  falls through to line 39; \<open>Inl e\<close>: one of the operations raises \<open>e\<close>.
\<close>

definition candidate_text :: "json \<Rightarrow> exn + json option" where
  "candidate_text response_data =
     (case contains (py ''candidates'') response_data of
        Inl e \<Rightarrow> Inl e
      | Inr False \<Rightarrow> Inr None
      | Inr True \<Rightarrow>
     (case getitem (py ''candidates'') response_data of
        Inl e \<Rightarrow> Inl e
      | Inr candidates \<Rightarrow>
     (case len candidates of
        Inl e \<Rightarrow> Inl e
      | Inr n \<Rightarrow>
     if \<not> n > 0 then Inr None else
     (case getitem0 candidates of
        Inl e \<Rightarrow> Inl e
      | Inr candidate \<Rightarrow>
     (case contains (py ''content'') candidate of
        Inl e \<Rightarrow> Inl e
      | Inr False \<Rightarrow> Inr None
      | Inr True \<Rightarrow>
     (case getitem (py ''content'') candidate of
        Inl e \<Rightarrow> Inl e
      | Inr content \<Rightarrow>
     (case contains (py ''parts'') content of
        Inl e \<Rightarrow> Inl e
      | Inr False \<Rightarrow> Inr None
      | Inr True \<Rightarrow>
     (case getitem (py ''parts'') content of
        Inl e \<Rightarrow> Inl e
      | Inr parts \<Rightarrow>
     (case len parts of
        Inl e \<Rightarrow> Inl e
      | Inr m \<Rightarrow>
     if \<not> m > 0 then Inr None else
     (case getitem0 parts of
        Inl e \<Rightarrow> Inl e
      | Inr part \<Rightarrow>
     (case get_text part of
        Inl e \<Rightarrow> Inl e
      | Inr t \<Rightarrow> Inr (Some t))))))))))))"

subsection \<open>\<open>call_gemini_api\<close>\<close>

text \<open>
  The request of lines 14 to 25. Its body is the UTF-8 encoding of \<open>json.dumps(payload)\<close>,
  which is determined by \<open>payload\<close>; the record keeps the payload itself.
\<close>

record request =
  url :: pystr
  payload :: json
  headers :: "(pystr \<times> pystr) list"

text \<open>
  What \<open>urlopen(req)\<close> followed by \<open>response.read()\<close> does: the body of a response, an
  \<open>HTTPError\<close> with its status code and the bytes its \<open>read()\<close> gives, or another exception.
\<close>

datatype http_outcome =
    Response bytes
  | HTTPError int bytes
  | Failure exn

text \<open>
  The parts of the Python runtime and of the network that the function depends on:
  \<open>json.dumps\<close>, \<open>json.loads\<close>, \<open>str(e)\<close> and the server behind \<open>urlopen\<close>.
\<close>

record runtime =
  dumps :: "json \<Rightarrow> pystr"
  loads :: "pystr \<Rightarrow> exn + json"
  str_exc :: "exn \<Rightarrow> pystr"
  urlopen :: "request \<Rightarrow> http_outcome"

definition make_request :: "pystr \<Rightarrow> pystr \<Rightarrow> request" where
  "make_request api_key message =
     \<lparr> url = py ''https://generativelanguage.googleapis.com/v1beta/models/gemini-2.0-flash-exp:generateContent?key='' @ api_key,
       payload = JObj [(py ''contents'', JArr [JObj [(py ''parts'', JArr [JObj [(py ''text'', JStr message)]])]])],
       headers = [(py ''Content-Type'', py ''application/json'')] \<rparr>"

definition error_string :: "runtime \<Rightarrow> exn \<Rightarrow> json" where
  "error_string rt e = JStr (py ''Error: '' @ str_exc rt e)"

text \<open>
  \<open>Inr v\<close>: the function returns the Python value \<open>v\<close>; \<open>Inl e\<close>: the exception \<open>e\<close> leaves
  the function. An exception raised in the body of the \<open>try\<close> is handled by the
  \<open>except Exception\<close> clause; one raised inside the \<open>except HTTPError\<close> clause is not.
\<close>

definition call_gemini_api :: "runtime \<Rightarrow> pystr \<Rightarrow> pystr \<Rightarrow> exn + json" where
  "call_gemini_api rt api_key message =
     (case urlopen rt (make_request api_key message) of
        Response body \<Rightarrow>
          (case decode body of
             Inl e \<Rightarrow> Inr (error_string rt e)
           | Inr text \<Rightarrow>
               (case loads rt text of
                  Inl e \<Rightarrow> Inr (error_string rt e)
                | Inr response_data \<Rightarrow>
                    (case candidate_text response_data of
                       Inl e \<Rightarrow> Inr (error_string rt e)
                     | Inr (Some t) \<Rightarrow> Inr t
                     | Inr None \<Rightarrow> Inr (JStr (dumps rt response_data)))))
      | HTTPError code body \<Rightarrow>
          (case decode body of
             Inl e \<Rightarrow> Inl e
           | Inr error_body \<Rightarrow>
               Inr (JStr (py ''HTTP Error '' @ str_int code @ py '': '' @ error_body)))
      | Failure e \<Rightarrow> Inr (error_string rt e))"

subsection \<open>The entry point (lines 46 to 61)\<close>

definition usage :: "pystr list" where
  "usage =
     [py ''Usage: gemini_api_bridge.py <api_key> <message>'',
      py ''Or set GEMINI_API_KEY and GEMINI_MESSAGE environment variables'']"

text \<open>\<open>not x\<close> for the result of \<open>os.environ.get\<close>: \<open>None\<close> and the empty string are false.\<close>

fun unset :: "pystr option \<Rightarrow> bool" where
  "unset None = True"
| "unset (Some v) = (v = [])"

text \<open>
  Lines 48 to 58: the pair passed to \<open>call_gemini_api\<close>, or the lines printed to standard
  error with the status given to \<open>sys.exit\<close>.
\<close>

definition resolve_inputs ::
  "(pystr \<rightharpoonup> pystr) \<Rightarrow> pystr list \<Rightarrow> (pystr list \<times> int) + (pystr \<times> pystr)" where
  "resolve_inputs environ argv =
     (let api_key = environ (py ''GEMINI_API_KEY'');
          message = environ (py ''GEMINI_MESSAGE'')
      in if unset api_key \<or> unset message then
           (if length argv \<noteq> 3 then Inl (usage, 1)
            else Inr (argv ! 1, argv ! 2))
         else Inr (the api_key, the message))"

text \<open>
  A finished process: its exit status and what it wrote to standard output and standard
  error; or an exception that nothing caught, which ends the script with a traceback on
  standard error, nothing on standard output and exit status 1.
\<close>

datatype process =
    Exited int "json list" "pystr list"
  | Uncaught exn

text \<open>
  \<open>print(response)\<close> on a UTF-8 standard output: a string is written as it is, and a
  surrogate code point in it cannot be encoded; any other value is written through its
  \<open>repr\<close>, which escapes such code points.
\<close>

definition surrogate :: "nat \<Rightarrow> bool" where
  "surrogate c = (55296 \<le> c \<and> c \<le> 57343)"

fun printable :: "json \<Rightarrow> bool" where
  "printable (JStr s) = (\<not> list_ex surrogate s)"
| "printable v = True"

definition main :: "runtime \<Rightarrow> (pystr \<rightharpoonup> pystr) \<Rightarrow> pystr list \<Rightarrow> process" where
  "main rt environ argv =
     (case resolve_inputs environ argv of
        Inl (lines, status) \<Rightarrow> Exited status [] lines
      | Inr (api_key, message) \<Rightarrow>
          (case call_gemini_api rt api_key message of
             Inl e \<Rightarrow> Uncaught e
           | Inr response \<Rightarrow>
               if printable response then Exited 0 [response] []
               else Uncaught UnicodeEncodeError))"

section \<open>What the specification calls a response without the candidate structure\<close>

text \<open>
  The ways listed by the specification: no \<open>candidates\<close> key, an empty \<open>candidates\<close> array,
  a first candidate without \<open>content\<close>, a content without \<open>parts\<close>, an empty \<open>parts\<close>
  array. Each function looks at the result of one dictionary lookup.
\<close>

fun parts_missing :: "json option \<Rightarrow> bool" where
  "parts_missing None = True"
| "parts_missing (Some (JArr [])) = True"
| "parts_missing (Some v) = False"

fun content_missing :: "json option \<Rightarrow> bool" where
  "content_missing None = True"
| "content_missing (Some (JObj content)) = parts_missing (map_of content (py ''parts''))"
| "content_missing (Some v) = False"

fun candidates_missing :: "json option \<Rightarrow> bool" where
  "candidates_missing None = True"
| "candidates_missing (Some (JArr [])) = True"
| "candidates_missing (Some (JArr (JObj candidate # cs))) =
     content_missing (map_of candidate (py ''content''))"
| "candidates_missing (Some v) = False"

definition missing_structure :: "(pystr \<times> json) list \<Rightarrow> bool" where
  "missing_structure d = candidates_missing (map_of d (py ''candidates''))"

section \<open>Concrete surroundings for running the two flows\<close>

text \<open>A \<open>str(e)\<close>: the message of a \<open>ValueError\<close>, the class name of any other exception.\<close>

definition class_name :: "exn \<Rightarrow> pystr" where
  "class_name e =
     (case e of
        ValueError m \<Rightarrow> m
      | TypeError \<Rightarrow> py ''TypeError''
      | BinasciiError \<Rightarrow> py ''Error''
      | _ \<Rightarrow> py ''Exception'')"

definition empty_fs :: fs where
  "empty_fs = Map.empty"

text \<open>The bytes of an ASCII string.\<close>

definition encode_ascii :: "pystr \<Rightarrow> bytes" where
  "encode_ascii s = map of_nat s"

text \<open>
  A runtime whose JSON library knows one document, \<open>text\<close> for the value \<open>v\<close>, and whose
  server answers every request with \<open>outcome\<close>.
\<close>

definition canned_runtime :: "pystr \<Rightarrow> json \<Rightarrow> http_outcome \<Rightarrow> runtime" where
  "canned_runtime text v outcome =
     \<lparr> dumps = (\<lambda>x. if x = v then text else []),
       loads = (\<lambda>t. if t = text then Inr v else Inl JSONDecodeError),
       str_exc = class_name,
       urlopen = (\<lambda>req. outcome) \<rparr>"

definition hi_there_text :: pystr where
  \<open>hi_there_text = py ''{"candidates":[{"content":{"parts":[{"text":"hi there"}]}}]}''\<close>

definition hi_there :: json where
  "hi_there =
     JObj [(py ''candidates'',
       JArr [JObj [(py ''content'',
         JObj [(py ''parts'', JArr [JObj [(py ''text'', JStr (py ''hi there''))]])])]])]"

definition no_text_text :: pystr where
  \<open>no_text_text = py ''{"candidates":[{"content":{"parts":[{}]}}]}''\<close>

definition no_text :: json where
  "no_text =
     JObj [(py ''candidates'',
       JArr [JObj [(py ''content'', JObj [(py ''parts'', JArr [JObj []])])]])]"

definition blocked_text :: pystr where
  \<open>blocked_text = py ''{"candidates": [], "promptFeedback": {"blockReason": "SAFETY"}}''\<close>

definition blocked :: json where
  "blocked =
     JObj [(py ''candidates'', JArr []),
           (py ''promptFeedback'', JObj [(py ''blockReason'', JStr (py ''SAFETY''))])]"

section \<open>Auxiliary facts\<close>

lemma output_file_neq: "output_file \<noteq> assets_folder"
  by (simp add: output_file_def py_def)

lemma search_keys_first:
  assumes "key \<in> set keys" and "map_of members key = Some v"
    and "\<forall>k \<in> set (takeWhile (\<lambda>k. k \<noteq> key) keys). map_of members k = None"
  shows "search_keys keys members = v"
  using assms
proof (induction keys)
  case Nil
  then show ?case by simp
next
  case (Cons a keys)
  show ?case
  proof (cases "a = key")
    case True
    with Cons.prems(2) show ?thesis by simp
  next
    case False
    with Cons.prems have "map_of members a = None" and "key \<in> set keys"
      and "\<forall>k \<in> set (takeWhile (\<lambda>k. k \<noteq> key) keys). map_of members k = None"
      by auto
    with Cons.IH Cons.prems(2) show ?thesis by simp
  qed
qed

text \<open>
  A response of none of the recognised shapes leaves \<open>base64_images\<close> at \<open>None\<close>, and the flow
  stops with the no-image failure before anything is decoded or written.
\<close>

lemma unrecognised_shape_reports_no_image:
  assumes "response_data = JNull \<or> (\<exists>b. response_data = JBool b) \<or>
     (\<exists>i. response_data = JInt i) \<or> (\<exists>f. response_data = JFloat f) \<or>
     response_data = JArr [] \<or>
     (\<exists>d. response_data = JObj d \<and> map_of d (py ''images'') = None)"
  shows "image_flow dec msg response_data fs = (Inl no_image_found, fs)"
  using assms by (auto simp: image_flow_def extractor_def)

lemma decode_encode_ascii:
  "list_all (\<lambda>c. c < 128) s \<Longrightarrow> decode (encode_ascii s) = Inr s"
proof -
  have "list_all (\<lambda>c. c < 128) s \<Longrightarrow> utf8_decode (map unat (map of_nat s :: bytes)) = Some s"
  proof (induction s)
    case Nil
    then show ?case by simp
  next
    case (Cons c s)
    then have "c < 128" and "utf8_decode (map unat (map of_nat s :: bytes)) = Some s"
      by simp_all
    moreover from \<open>c < 128\<close> have "unat (of_nat c :: 8 word) = c"
      by (simp add: unat_of_nat)
    ultimately show ?case by simp
  qed
  then show "list_all (\<lambda>c. c < 128) s \<Longrightarrow> decode (encode_ascii s) = Inr s"
    by (simp add: decode_def encode_ascii_def)
qed

lemma parts_missingD:
  "parts_missing po \<Longrightarrow> po = None \<or> po = Some (JArr [])"
  by (cases po rule: parts_missing.cases) auto

lemma content_missingD:
  "content_missing co \<Longrightarrow>
     co = None \<or>
     (\<exists>content. co = Some (JObj content) \<and> parts_missing (map_of content (py ''parts'')))"
  by (cases co rule: content_missing.cases) auto

lemma candidates_missingD:
  "candidates_missing cao \<Longrightarrow>
     cao = None \<or> cao = Some (JArr []) \<or>
     (\<exists>candidate cs. cao = Some (JArr (JObj candidate # cs)) \<and>
        content_missing (map_of candidate (py ''content'')))"
  by (cases cao rule: candidates_missing.cases) auto

lemma candidate_text_first_part:
  assumes "map_of d (py ''candidates'') = Some (JArr (JObj candidate # cs))"
    and "map_of candidate (py ''content'') = Some (JObj content)"
    and "map_of content (py ''parts'') = Some (JArr (part # ps))"
  shows "candidate_text (JObj d)
           = (case get_text part of Inl e \<Rightarrow> Inl e | Inr t \<Rightarrow> Inr (Some t))"
  using assms by (simp add: candidate_text_def)

lemma candidate_text_missing:
  assumes "missing_structure d"
  shows "candidate_text (JObj d) = Inr None"
proof -
  from assms have "candidates_missing (map_of d (py ''candidates''))"
    by (simp add: missing_structure_def)
  from candidates_missingD [OF this] show ?thesis
  proof (elim disjE exE conjE)
    assume "map_of d (py ''candidates'') = None"
    then show ?thesis by (simp add: candidate_text_def)
  next
    assume "map_of d (py ''candidates'') = Some (JArr [])"
    then show ?thesis by (simp add: candidate_text_def)
  next
    fix candidate cs
    assume c: "map_of d (py ''candidates'') = Some (JArr (JObj candidate # cs))"
      and "content_missing (map_of candidate (py ''content''))"
    from content_missingD [OF this(2)] show ?thesis
    proof (elim disjE exE conjE)
      assume "map_of candidate (py ''content'') = None"
      with c show ?thesis by (simp add: candidate_text_def)
    next
      fix content
      assume ct: "map_of candidate (py ''content'') = Some (JObj content)"
        and "parts_missing (map_of content (py ''parts''))"
      from parts_missingD [OF this(2)] c ct show ?thesis
        by (auto simp: candidate_text_def)
    qed
  qed
qed

text \<open>
  What the library decoder does with a string of alphabet characters only: it accepts it
  exactly when the length is a multiple of four.
\<close>

lemma alphabet_not_pad: "alphabet c \<Longrightarrow> c \<noteq> 61"
  by (auto simp: alphabet_def table_a2b_base64_def split: if_splits)

lemma alphabet_ascii: "alphabet c \<Longrightarrow> c < 128"
  by (auto simp: alphabet_def table_a2b_base64_def split: if_splits)

lemma a2b_alphabet_only:
  assumes "list_all alphabet cs" and "q < 4"
  shows "(\<exists>d. a2b_base64 cs q l p out = Inr d) \<longleftrightarrow> (q + length cs) mod 4 = 0"
  using assms
proof (induction cs arbitrary: q l p out)
  case Nil
  then show ?case by auto
next
  case (Cons c cs)
  from Cons.prems have ac: "alphabet c" by simp
  then obtain v where v: "table_a2b_base64 c = Some v"
    by (auto simp: alphabet_def)
  from ac have ne: "c \<noteq> 61" by (rule alphabet_not_pad)
  from Cons.prems have cs: "list_all alphabet cs" by simp
  consider "q = 0" | "q = 1" | "q = 2" | "q = 3" using Cons.prems(2) by linarith
  then show ?case
  proof cases
    case 1
    with Cons.IH [OF cs, of 1] v ne show ?thesis by simp
  next
    case 2
    with Cons.IH [OF cs, of 2] v ne show ?thesis by simp
  next
    case 3
    with Cons.IH [OF cs, of 3] v ne show ?thesis by simp
  next
    case 4
    with Cons.IH [OF cs, of 0] v ne show ?thesis by (simp add: mod_Suc_eq)
  qed
qed

lemma b64decode_alphabet_only:
  assumes "list_all alphabet cs"
  shows "(\<exists>d. b64decode (JStr cs) = Inr d) \<longleftrightarrow> length cs mod 4 = 0"
proof -
  from assms have "list_all (\<lambda>c. c < 128) cs"
    by (induction cs) (auto dest: alphabet_ascii)
  then show ?thesis
    using a2b_alphabet_only [OF assms, of 0 0 0 "[]"] by (simp add: b64decode_def)
qed

text \<open>\<open>str_nat\<close> writes the decimal numeral of its argument.\<close>

lemma str_nat_digits: "list_all (\<lambda>c. 48 \<le> c \<and> c \<le> 57) (str_nat n)"
proof (induction n rule: str_nat.induct)
  case (1 n)
  show ?case
  proof (cases "n < 10")
    case True
    then show ?thesis by (simp add: str_nat.simps [of n])
  next
    case False
    have "n mod 10 < 10" by simp
    then have "48 + n mod 10 \<le> 57" by linarith
    with False 1 show ?thesis by (simp add: str_nat.simps [of n])
  qed
qed

lemma str_nat_value: "foldl (\<lambda>a c. 10 * a + (c - 48)) 0 (str_nat n) = n"
proof (induction n rule: str_nat.induct)
  case (1 n)
  show ?case
  proof (cases "n < 10")
    case True
    then show ?thesis by (simp add: str_nat.simps [of n])
  next
    case False
    with 1 show ?thesis by (simp add: str_nat.simps [of n])
  qed
qed

text \<open>
  The only way an exception leaves \<open>call_gemini_api\<close>: an HTTP error whose body does not
  decode.
\<close>

lemma raises_only_in_error_handler:
  assumes "call_gemini_api rt api_key message = Inl e"
  shows "\<exists>c body. urlopen rt (make_request api_key message) = HTTPError c body \<and>
           decode body = Inl e"
  using assms
  by (auto simp: call_gemini_api_def split: http_outcome.splits sum.splits option.splits)

section \<open>The image flow: claims\<close>

text \<open>
  C1. What the extractor yields for the two \<open>images\<close> shapes. For an object element with the
  key \<open>image_b64\<close> it is the string itself. For a plain string element the code assigns
  \<open>[img_obj]\<close>: a one-element list, which is not the string, and which \<open>base64.b64decode\<close>
  rejects with a \<open>TypeError\<close>, so that the flow ends in the decode failure and writes nothing,
  whatever the string is.
\<close>

theorem string_element_is_wrapped_in_a_list:
  "extractor (JObj [(py ''images'', JArr [JObj [(py ''image_b64'', JStr b)]])]) = Inr (JStr b) \<and>
   extractor (JObj [(py ''images'', JArr [JStr b])]) = Inr (JArr [JStr b]) \<and>
   JArr [JStr b] \<noteq> JStr b \<and>
   image_flow b64decode msg (JObj [(py ''images'', JArr [JStr b])]) fs
     = (Inl (decode_failed msg TypeError), fs)"
  by (simp add: image_flow_def extractor_def b64decode_def candidate_keys_def)

text \<open>
  C4. An object whose \<open>images\<close> array is empty: \<open>response_data[images][0]\<close> raises
  \<open>IndexError\<close>, which is what reaches the outer handler; it is not the no-image failure.
  No file is written.
\<close>

theorem empty_images_array_raises_IndexError:
  "extractor (JObj [(py ''images'', JArr [])]) = Inl IndexError \<and>
   image_flow dec msg (JObj [(py ''images'', JArr [])]) fs = (Inl IndexError, fs) \<and>
   IndexError \<noteq> no_image_found"
  by (simp add: image_flow_def extractor_def no_image_found_def)

text \<open>
  C10. The first element of \<open>images\<close> is a dictionary, and the first of the five recognised
  keys that it has (in the order of the search) is bound to a falsy value: the flow stops
  with the no-image failure. The decoder is not consulted, whatever it is, and the file
  system is unchanged.
\<close>

theorem falsy_field_reports_no_image:
  assumes "map_of d (py ''images'') = Some (JArr (JObj members # others))"
    and "key \<in> set candidate_keys"
    and "map_of members key = Some v"
    and "\<not> truthy v"
    and "\<forall>k \<in> set (takeWhile (\<lambda>k. k \<noteq> key) candidate_keys). map_of members k = None"
  shows "image_flow dec msg (JObj d) fs = (Inl no_image_found, fs)"
proof -
  have "search_keys candidate_keys members = v"
    using assms(2,3,5) by (rule search_keys_first)
  then have "extractor (JObj d) = Inr v"
    using assms(1) by (simp add: extractor_def)
  then show ?thesis
    using assms(4) by (simp add: image_flow_def)
qed

theorem falsy_field_reports_no_image_witness:
  "image_flow b64decode class_name
     (JObj [(py ''images'', JArr [JObj [(py ''data'', JStr [])]])]) empty_fs
   = (Inl no_image_found, empty_fs)"
  using falsy_field_reports_no_image
    [of "[(py ''images'', JArr [JObj [(py ''data'', JStr [])]])]" "[(py ''data'', JStr [])]" "[]"
        "py ''data''" "JStr []" b64decode class_name empty_fs]
  by (simp add: candidate_keys_def py_def)

text \<open>
  C5, as stated, fails: the library decoder runs with \<open>validate=False\<close> and skips every
  character outside the alphabet. The payload \<open>QUJD!\<close> is not valid base64, and the flow
  decodes it to the bytes of \<open>ABC\<close> and writes the file.
\<close>

theorem lenient_decoder_accepts_invalid_base64:
  "\<not> valid_base64 (py ''QUJD!'') \<and>
   extractor (JStr (py ''QUJD!'')) = Inr (JStr (py ''QUJD!'')) \<and>
   image_flow b64decode class_name (JStr (py ''QUJD!'')) empty_fs
     = (Inr output_file, empty_fs(assets_folder \<mapsto> Dir, output_file \<mapsto> File [65, 66, 67]))"
  by (simp add: image_flow_def extractor_def b64decode_def py_def table_a2b_base64_def
      makedirs_def write_file_def empty_fs_def assets_folder_def output_file_def)

text \<open>
  C5, amended. For every non-empty extracted payload that the decoder rejects, the flow
  reports the decode failure, which differs from the no-image failure, and leaves the file
  system as it was.
\<close>

theorem rejected_payload_reports_decode_failure:
  assumes "extractor response_data = Inr p" and "truthy p" and "dec p = Inl e"
  shows "image_flow dec msg response_data fs = (Inl (decode_failed msg e), fs) \<and>
         decode_failed msg e \<noteq> no_image_found"
  using assms by (simp add: image_flow_def decode_failed_def no_image_found_def py_def)

theorem rejected_payload_reports_decode_failure_witness:
  "image_flow b64decode class_name (JStr (py ''QUJDR'')) empty_fs
     = (Inl (decode_failed class_name BinasciiError), empty_fs) \<and>
   decode_failed class_name BinasciiError \<noteq> no_image_found"
  using rejected_payload_reports_decode_failure
    [of "JStr (py ''QUJDR'')" "JStr (py ''QUJDR'')" b64decode BinasciiError class_name empty_fs]
  by (simp add: extractor_def b64decode_def py_def table_a2b_base64_def)

text \<open>
  C9, as stated, fails: the empty string is an extracted payload that the decoder accepts
  (it decodes to no bytes), and the guard \<open>if not base64_images\<close> stops the flow before
  anything is decoded or written.
\<close>

theorem empty_payload_is_not_written:
  "extractor (JStr []) = Inr (JStr []) \<and> b64decode (JStr []) = Inr [] \<and>
   image_flow b64decode class_name (JStr []) empty_fs = (Inl no_image_found, empty_fs) \<and>
   empty_fs output_file = None"
  by (simp add: image_flow_def extractor_def b64decode_def empty_fs_def)

text \<open>
  C9, amended. For every non-empty extracted payload that decodes to the bytes \<open>d\<close>, when
  \<open>./assets\<close> is absent or a directory and \<open>./assets/output1.png\<close> is not a directory: the
  flow succeeds, \<open>./assets\<close> is a directory afterwards, the output file holds exactly \<open>d\<close>
  whatever it held before, and nothing else changes.
\<close>

theorem decoded_bytes_are_written:
  assumes "extractor response_data = Inr p" and "truthy p" and "dec p = Inr d"
    and "fs assets_folder = None \<or> fs assets_folder = Some Dir"
    and "fs output_file \<noteq> Some Dir"
  shows "image_flow dec msg response_data fs
           = (Inr output_file, fs(assets_folder \<mapsto> Dir, output_file \<mapsto> File d))"
  using assms output_file_neq
  by (auto simp: image_flow_def makedirs_def write_file_def fun_upd_idem
      split: option.splits node.splits)

theorem decoded_bytes_are_written_witness:
  "image_flow b64decode class_name (JStr (py ''QUJD''))
     (empty_fs(assets_folder \<mapsto> Dir, output_file \<mapsto> File [1, 2]))
   = (Inr output_file, empty_fs(assets_folder \<mapsto> Dir, output_file \<mapsto> File [65, 66, 67]))"
  using decoded_bytes_are_written
    [of "JStr (py ''QUJD'')" "JStr (py ''QUJD'')" b64decode "[65, 66, 67]"
        "empty_fs(assets_folder \<mapsto> Dir, output_file \<mapsto> File [1, 2])" class_name]
    output_file_neq
  by (simp add: extractor_def b64decode_def py_def table_a2b_base64_def)

section \<open>The text flow: claims\<close>

text \<open>
  C2. The response body parses to an object whose \<open>candidates\<close> is an array with a first
  candidate, an object whose \<open>content\<close> is an object whose \<open>parts\<close> is an array with a first
  part, itself an object. If that part has a \<open>text\<close> field, \<open>call_gemini_api\<close> returns the
  field's value and nothing else; if it has none, the function returns the empty string.
  This holds for every API key, message and runtime.
\<close>

theorem returns_text_of_first_part:
  assumes "urlopen rt (make_request api_key message) = Response body"
    and "decode body = Inr doc"
    and "loads rt doc = Inr (JObj d)"
    and "map_of d (py ''candidates'') = Some (JArr (JObj candidate # cs))"
    and "map_of candidate (py ''content'') = Some (JObj content)"
    and "map_of content (py ''parts'') = Some (JArr (JObj part # ps))"
  shows "(map_of part (py ''text'') = Some t \<longrightarrow>
            call_gemini_api rt api_key message = Inr t) \<and>
         (map_of part (py ''text'') = None \<longrightarrow>
            call_gemini_api rt api_key message = Inr (JStr []))"
  using assms candidate_text_first_part [OF assms(4,5,6)]
  by (simp add: call_gemini_api_def)

theorem returns_text_of_first_part_witness:
  "call_gemini_api (canned_runtime hi_there_text hi_there (Response (encode_ascii hi_there_text)))
     (py ''k'') (py ''hello'') = Inr (JStr (py ''hi there'')) \<and>
   call_gemini_api (canned_runtime no_text_text no_text (Response (encode_ascii no_text_text)))
     (py ''k'') (py ''hello'') = Inr (JStr [])"
proof -
  have a: "list_all (\<lambda>c. c < 128) hi_there_text"
    by (simp add: hi_there_text_def py_def)
  have b: "list_all (\<lambda>c. c < 128) no_text_text"
    by (simp add: no_text_text_def py_def)
  show ?thesis
    using
      returns_text_of_first_part
        [where rt = "canned_runtime hi_there_text hi_there (Response (encode_ascii hi_there_text))"
           and api_key = "py ''k''" and message = "py ''hello''"
           and body = "encode_ascii hi_there_text" and doc = hi_there_text
           and d = "[(py ''candidates'',
               JArr [JObj [(py ''content'',
                 JObj [(py ''parts'', JArr [JObj [(py ''text'', JStr (py ''hi there''))]])])]])]"
           and candidate = "[(py ''content'',
                 JObj [(py ''parts'', JArr [JObj [(py ''text'', JStr (py ''hi there''))]])])]"
           and cs = "[]"
           and content = "[(py ''parts'', JArr [JObj [(py ''text'', JStr (py ''hi there''))]])]"
           and part = "[(py ''text'', JStr (py ''hi there''))]" and ps = "[]"
           and t = "JStr (py ''hi there'')"]
      returns_text_of_first_part
        [where rt = "canned_runtime no_text_text no_text (Response (encode_ascii no_text_text))"
           and api_key = "py ''k''" and message = "py ''hello''"
           and body = "encode_ascii no_text_text" and doc = no_text_text
           and d = "[(py ''candidates'',
               JArr [JObj [(py ''content'', JObj [(py ''parts'', JArr [JObj []])])]])]"
           and candidate = "[(py ''content'', JObj [(py ''parts'', JArr [JObj []])])]"
           and cs = "[]"
           and content = "[(py ''parts'', JArr [JObj []])]"
           and part = "[]" and ps = "[]" and t = JNull]
      decode_encode_ascii [OF a] decode_encode_ascii [OF b]
    by (simp add: canned_runtime_def hi_there_def no_text_def)
qed

text \<open>
  C3. An HTTP error response whose body is not valid UTF-8 (here the single byte \<open>0xFF\<close>):
  \<open>e.read().decode('utf-8')\<close> raises \<open>UnicodeDecodeError\<close> inside the \<open>except HTTPError\<close>
  clause, where no handler covers it, and the exception leaves \<open>call_gemini_api\<close>. This
  holds for every runtime, status code, API key and message.
\<close>

theorem undecodable_error_body_raises:
  "call_gemini_api (rt\<lparr>urlopen := \<lambda>req. HTTPError code [255]\<rparr>) api_key message
     = Inl UnicodeDecodeError"
  by (simp add: call_gemini_api_def decode_def)

text \<open>
  C6. An HTTP error response whose body is not valid UTF-8 (here the bytes \<open>0xC3 0x28\<close>, a
  lead byte without its continuation): the formatted string of line 42 is never built. The
  decoding of line 41 raises, the exception leaves the function, and no string is returned,
  whatever the status code. This is the defect of C3.
\<close>

theorem undecodable_error_body_returns_no_string:
  "call_gemini_api (rt\<lparr>urlopen := \<lambda>req. HTTPError code [195, 40]\<rparr>) api_key message
     = Inl UnicodeDecodeError \<and>
   (\<forall>s. call_gemini_api (rt\<lparr>urlopen := \<lambda>req. HTTPError code [195, 40]\<rparr>) api_key message
     \<noteq> Inr (JStr s))"
  by (simp add: call_gemini_api_def decode_def continuation_def)

text \<open>
  When the body of the HTTP error does decode, to the text \<open>b\<close>, the function returns
  exactly \<open>HTTP Error c: b\<close> for the status code \<open>c\<close>: a string that starts with
  \<open>HTTP Error\<close>, a space and the decimal status code.
\<close>

lemma http_error_string:
  assumes "urlopen rt (make_request api_key message) = HTTPError c body"
    and "decode body = Inr b"
  shows "call_gemini_api rt api_key message
           = Inr (JStr (py ''HTTP Error '' @ str_int c @ py '': '' @ b)) \<and>
         (\<exists>rest. call_gemini_api rt api_key message
           = Inr (JStr (py ''HTTP Error '' @ str_int c @ rest)))"
  using assms by (simp add: call_gemini_api_def)

lemma http_error_string_example:
  "call_gemini_api
     (canned_runtime hi_there_text hi_there (HTTPError 404 (encode_ascii (py ''Not Found''))))
     (py ''k'') (py ''hello'')
   = Inr (JStr (py ''HTTP Error 404: Not Found''))"
proof -
  have a: "list_all (\<lambda>c. c < 128) (py ''Not Found'')"
    by (simp add: py_def)
  have n: "str_int 404 = py ''404''"
    by (simp add: str_int_def str_nat.simps py_def)
  show ?thesis
    using
      http_error_string
        [where rt = "canned_runtime hi_there_text hi_there
                       (HTTPError 404 (encode_ascii (py ''Not Found'')))"
           and api_key = "py ''k''" and message = "py ''hello''" and c = 404
           and body = "encode_ascii (py ''Not Found'')" and b = "py ''Not Found''"]
      decode_encode_ascii [OF a] n
    by (simp add: canned_runtime_def py_def)
qed

text \<open>
  C7. The response body parses to an object that lacks the candidate structure in one of
  the listed ways: \<open>call_gemini_api\<close> returns \<open>json.dumps\<close> of the parsed response, unchanged.
  \<open>json.dumps\<close> and \<open>json.loads\<close> belong to the runtime; where they invert each other on
  the parsed response, parsing the returned string gives the parsed response back.
\<close>

theorem fallback_returns_serialised_response:
  assumes "urlopen rt (make_request api_key message) = Response body"
    and "decode body = Inr doc"
    and "loads rt doc = Inr (JObj d)"
    and "missing_structure d"
    and "loads rt (dumps rt (JObj d)) = Inr (JObj d)"
  shows "call_gemini_api rt api_key message = Inr (JStr (dumps rt (JObj d))) \<and>
         (\<exists>s. call_gemini_api rt api_key message = Inr (JStr s) \<and> loads rt s = Inr (JObj d))"
  using assms candidate_text_missing [OF assms(4)]
  by (simp add: call_gemini_api_def)

theorem fallback_returns_serialised_response_witness:
  "call_gemini_api (canned_runtime blocked_text blocked (Response (encode_ascii blocked_text)))
     (py ''k'') (py ''hello'') = Inr (JStr blocked_text)"
proof -
  have a: "list_all (\<lambda>c. c < 128) blocked_text"
    by (simp add: blocked_text_def py_def)
  show ?thesis
    using
      fallback_returns_serialised_response
        [where rt = "canned_runtime blocked_text blocked (Response (encode_ascii blocked_text))"
           and api_key = "py ''k''" and message = "py ''hello''"
           and body = "encode_ascii blocked_text" and doc = blocked_text
           and d = "[(py ''candidates'', JArr []),
                     (py ''promptFeedback'', JObj [(py ''blockReason'', JStr (py ''SAFETY''))])]"]
      decode_encode_ascii [OF a]
    by (simp add: canned_runtime_def blocked_def missing_structure_def)
qed

text \<open>
  C8, as stated, fails: with \<open>GEMINI_API_KEY\<close> set and \<open>GEMINI_MESSAGE\<close> set to the empty
  string, both variables are set, yet the test \<open>not api_key or not message\<close> sends the script
  to the command line, and without arguments it exits with status 1.
\<close>

theorem empty_message_variable_is_ignored:
  "[py ''GEMINI_API_KEY'' \<mapsto> py ''k'', py ''GEMINI_MESSAGE'' \<mapsto> []] (py ''GEMINI_API_KEY'')
     = Some (py ''k'') \<and>
   [py ''GEMINI_API_KEY'' \<mapsto> py ''k'', py ''GEMINI_MESSAGE'' \<mapsto> []] (py ''GEMINI_MESSAGE'')
     = Some [] \<and>
   resolve_inputs [py ''GEMINI_API_KEY'' \<mapsto> py ''k'', py ''GEMINI_MESSAGE'' \<mapsto> []]
     [py ''gemini_api_bridge.py''] = Inl (usage, 1) \<and>
   main (canned_runtime hi_there_text hi_there (Response (encode_ascii hi_there_text)))
     [py ''GEMINI_API_KEY'' \<mapsto> py ''k'', py ''GEMINI_MESSAGE'' \<mapsto> []]
     [py ''gemini_api_bridge.py''] = Exited 1 [] usage"
  by (simp add: resolve_inputs_def main_def py_def)

text \<open>
  C8, amended. If both variables are set to non-empty values, those values are the API key
  and the message. Otherwise (one of them unset or empty) exactly two positional arguments
  are required: with them, they are the API key and the message; without them the process
  exits with status 1, the usage message on standard error and nothing on standard output.
\<close>

theorem input_resolution:
  "(environ (py ''GEMINI_API_KEY'') = Some k \<and> k \<noteq> [] \<and>
    environ (py ''GEMINI_MESSAGE'') = Some m \<and> m \<noteq> []
      \<longrightarrow> resolve_inputs environ argv = Inr (k, m)) \<and>
   ((unset (environ (py ''GEMINI_API_KEY'')) \<or> unset (environ (py ''GEMINI_MESSAGE''))) \<and>
    argv = [prog, a1, a2]
      \<longrightarrow> resolve_inputs environ argv = Inr (a1, a2)) \<and>
   ((unset (environ (py ''GEMINI_API_KEY'')) \<or> unset (environ (py ''GEMINI_MESSAGE''))) \<and>
    length argv \<noteq> 3
      \<longrightarrow> main rt environ argv = Exited 1 [] usage)"
  by (auto simp: resolve_inputs_def main_def Let_def)

theorem input_resolution_witness:
  "resolve_inputs [py ''GEMINI_API_KEY'' \<mapsto> py ''k'', py ''GEMINI_MESSAGE'' \<mapsto> py ''hello'']
     [py ''gemini_api_bridge.py''] = Inr (py ''k'', py ''hello'') \<and>
   resolve_inputs [py ''GEMINI_API_KEY'' \<mapsto> py ''k'']
     [py ''gemini_api_bridge.py'', py ''k2'', py ''hi''] = Inr (py ''k2'', py ''hi'') \<and>
   main (canned_runtime hi_there_text hi_there (Response (encode_ascii hi_there_text)))
     Map.empty [py ''gemini_api_bridge.py''] = Exited 1 [] usage"
  using
    input_resolution
      [where environ = "[py ''GEMINI_API_KEY'' \<mapsto> py ''k'', py ''GEMINI_MESSAGE'' \<mapsto> py ''hello'']"
         and argv = "[py ''gemini_api_bridge.py'']" and k = "py ''k''" and m = "py ''hello''"]
    input_resolution
      [where environ = "[py ''GEMINI_API_KEY'' \<mapsto> py ''k'']"
         and argv = "[py ''gemini_api_bridge.py'', py ''k2'', py ''hi'']"
         and prog = "py ''gemini_api_bridge.py''" and ?a1.0 = "py ''k2''" and ?a2.0 = "py ''hi''"]
    input_resolution
      [where environ = Map.empty and argv = "[py ''gemini_api_bridge.py'']"
         and rt = "canned_runtime hi_there_text hi_there (Response (encode_ascii hi_there_text))"]
  by (simp add: py_def)

end
